theory Spec2Isabelle
  imports Main "HOL-Library.AList"
begin

text \<open>
  A model of the query builder of \<open>mod.ts\<close>: the class \<open>SQLQuery\<close> with its interpolator
  (\<open>_interpolate\<close>), initial-query parser (\<open>parseInitialQuery\<close>), fragment classifier
  (\<open>parseQuery\<close>), renderer (\<open>toString\<close>), parameter export (\<open>parameters\<close>) and
  extension method (\<open>sql\<close>), and the argument loop of \<open>bin/cli.ts\<close>. The methods are
  written first as functions that take the state of \<open>this\<close> and return the new state, and
  then once more over a store of objects, to speak about what a call leaves untouched.
\<close>

section \<open>Strings of the host language\<close>

text \<open>
  A string is a list of code units; this development covers the code units 0 to 255.
  Within that range the white space that \<open>trim\<close> and the regular-expression class
  \<open>\s\<close> recognise is TAB, LF, VT, FF, CR, SPACE and NBSP.
\<close>

definition nl :: string where
  "nl = [CHR 0x0A]"

definition is_ws :: "char \<Rightarrow> bool" where
  "is_ws c \<longleftrightarrow> c \<in> {CHR 0x09, CHR 0x0A, CHR 0x0B, CHR 0x0C, CHR 0x0D, CHR 0x20, CHR 0xA0}"

definition trimStart :: "string \<Rightarrow> string" where
  "trimStart s = dropWhile is_ws s"

definition trimEnd :: "string \<Rightarrow> string" where
  "trimEnd s = rev (dropWhile is_ws (rev s))"

definition trim :: "string \<Rightarrow> string" where
  "trim s = trimEnd (trimStart s)"

definition lower_char :: "char \<Rightarrow> char" where
  "lower_char c =
     (let n = (of_char c :: nat)
      in if (65 \<le> n \<and> n \<le> 90) \<or> (192 \<le> n \<and> n \<le> 222 \<and> n \<noteq> 215)
         then char_of (n + 32) else c)"

definition toLowerCase :: "string \<Rightarrow> string" where
  "toLowerCase s = map lower_char s"

definition startsWith :: "string \<Rightarrow> string \<Rightarrow> bool" where
  "startsWith s p \<longleftrightarrow> take (length p) s = p"

definition substring :: "string \<Rightarrow> nat \<Rightarrow> string" where
  "substring s n = drop n s"

fun includes_str :: "string \<Rightarrow> string \<Rightarrow> bool" where
  "includes_str [] sub = (sub = [])"
| "includes_str (c # cs) sub = (startsWith (c # cs) sub \<or> includes_str cs sub)"

text \<open>\<open>split("\n")\<close>: the pieces between line feeds; an empty input gives one empty piece.\<close>

fun split_nl :: "string \<Rightarrow> string list" where
  "split_nl [] = [[]]"
| "split_nl (c # cs) =
     (if c = CHR 0x0A then [] # split_nl cs
      else (case split_nl cs of [] \<Rightarrow> [[c]] | l # ls \<Rightarrow> (c # l) # ls))"

text \<open>\<open>Array.prototype.join\<close>.\<close>

fun join :: "string list \<Rightarrow> string \<Rightarrow> string" where
  "join [] sep = []"
| "join [x] sep = x"
| "join (x # y # ys) sep = x @ sep @ join (y # ys) sep"

text \<open>The decimal text of a counter, as a template literal prints a number.\<close>

definition digit_char :: "nat \<Rightarrow> char" where
  "digit_char d = char_of (48 + d)"

fun show_nat :: "nat \<Rightarrow> string" where
  "show_nat n = (if n < 10 then [digit_char n] else show_nat (n div 10) @ [digit_char (n mod 10)])"

declare show_nat.simps [simp del]

text \<open>The three regular expressions of the initial-query parser.\<close>

definition matches_comma_only :: "string \<Rightarrow> bool" where
  \<comment> \<open>\<open>/^\s*,\s*$/\<close>\<close>
  "matches_comma_only line =
     (case dropWhile is_ws line of [] \<Rightarrow> False | c # rest \<Rightarrow> c = CHR '','' \<and> (\<forall>x \<in> set rest. is_ws x))"

definition strip_leading_comma :: "string \<Rightarrow> string" where
  \<comment> \<open>\<open>replace(/^,\s*/, "")\<close>\<close>
  "strip_leading_comma line =
     (case line of [] \<Rightarrow> [] | c # rest \<Rightarrow> if c = CHR '','' then dropWhile is_ws rest else line)"

definition strip_trailing_comma :: "string \<Rightarrow> string" where
  \<comment> \<open>\<open>replace(/,\s*$/, "")\<close>: only the last comma can be followed by white space alone.\<close>
  "strip_trailing_comma s =
     (case rev (trimEnd s) of [] \<Rightarrow> s | c # r \<Rightarrow> if c = CHR '','' then rev r else s)"

section \<open>Data model\<close>

record QueryParts =
  select :: "string list"
  from_table :: "string option"
  joins :: "string list"
  where_conds :: "string list"
  groupBy :: "string list"
  orderBy :: "string list"
  limit :: "string option"
  offset :: "string option"

text \<open>
  The values a template gap can hold. A number's payload is never inspected by the code,
  so integers stand for it. An object is its own enumerable properties in the host's
  enumeration order. A query value carries the three fields of an \<open>SQLQuery\<close> instance.
\<close>

datatype jsval =
    JUndefined
  | JNull
  | JBoolean bool
  | JNumber int
  | JString string
  | JBigInt int
  | JSymbol string
  | JFunction string
  | JObject "(string \<times> jsval) list"
  | JQuery QueryParts "(nat \<times> jsval) list" nat

fun typeof :: "jsval \<Rightarrow> string" where
  "typeof JUndefined = ''undefined''"
| "typeof JNull = ''object''"
| "typeof (JBoolean b) = ''boolean''"
| "typeof (JNumber n) = ''number''"
| "typeof (JString s) = ''string''"
| "typeof (JBigInt n) = ''bigint''"
| "typeof (JSymbol s) = ''symbol''"
| "typeof (JFunction f) = ''function''"
| "typeof (JObject kvs) = ''object''"
| "typeof (JQuery p ps c) = ''object''"

fun instanceof_SQLQuery :: "jsval \<Rightarrow> bool" where
  "instanceof_SQLQuery (JQuery p ps c) = True"
| "instanceof_SQLQuery v = False"

text \<open>\<open>Object.values(value)[0]\<close>: reading index 0 of an empty array gives \<open>undefined\<close>.\<close>

fun first_value :: "jsval \<Rightarrow> jsval" where
  "first_value (JObject ((k, v) # kvs)) = v"
| "first_value v = JUndefined"

record SQLQuery =
  parts :: QueryParts
  params :: "(nat \<times> jsval) list"
  paramCounter :: nat

definition empty_parts :: QueryParts where
  "empty_parts = \<lparr> select = [], from_table = None, joins = [], where_conds = [],
     groupBy = [], orderBy = [], limit = None, offset = None \<rparr>"

definition empty_query :: SQLQuery where
  "empty_query = \<lparr> parts = empty_parts, params = [], paramCounter = 0 \<rparr>"

section \<open>Renderer\<close>

definition valid_entry :: "string \<Rightarrow> bool" where
  \<comment> \<open>the filter callback of GROUP BY and ORDER BY\<close>
  "valid_entry part \<longleftrightarrow> part \<noteq> [] \<and> \<not> includes_str part '':undefined'' \<and> part \<noteq> '',''"

definition select_block :: "QueryParts \<Rightarrow> string list" where
  "select_block p =
     (if length (select p) > 0 then [''SELECT'' @ nl @ ''  '' @ join (select p) ('','' @ nl @ ''  '')]
      else [''SELECT *''])"

definition from_block :: "QueryParts \<Rightarrow> string list" where
  "from_block p =
     (case from_table p of None \<Rightarrow> [] | Some t \<Rightarrow> if t \<noteq> [] then [''FROM '' @ t] else [])"

definition joins_block :: "QueryParts \<Rightarrow> string list" where
  "joins_block p = (if length (joins p) > 0 then [join (joins p) nl] else [])"

definition where_block :: "QueryParts \<Rightarrow> string list" where
  "where_block p =
     (if length (where_conds p) > 0 then [''WHERE '' @ join (where_conds p) (nl @ ''  '')] else [])"

definition groupBy_block :: "QueryParts \<Rightarrow> string list" where
  "groupBy_block p =
     (if length (groupBy p) > 0 then
        (let validGroupBy = filter valid_entry (groupBy p)
         in if length validGroupBy > 0 then [''GROUP BY '' @ join validGroupBy '', ''] else [])
      else [])"

definition orderBy_block :: "QueryParts \<Rightarrow> string list" where
  "orderBy_block p =
     (if length (orderBy p) > 0 then
        (let validOrderBy = filter valid_entry (orderBy p)
         in if length validOrderBy > 0 then [''ORDER BY '' @ join validOrderBy '', ''] else [])
      else [])"

definition limit_block :: "QueryParts \<Rightarrow> string list" where
  "limit_block p =
     (case limit p of None \<Rightarrow> []
      | Some l \<Rightarrow> if \<not> includes_str l '':undefined'' then [''LIMIT '' @ l] else [])"

definition offset_block :: "QueryParts \<Rightarrow> string list" where
  "offset_block p =
     (case offset p of None \<Rightarrow> []
      | Some l \<Rightarrow> if \<not> includes_str l '':undefined'' then [''OFFSET '' @ l] else [])"

definition render_parts :: "QueryParts \<Rightarrow> string" where
  "render_parts p =
     join (select_block p @ from_block p @ joins_block p @ where_block p @ groupBy_block p
           @ orderBy_block p @ limit_block p @ offset_block p) nl"

definition toString :: "SQLQuery \<Rightarrow> string" where
  "toString q = render_parts (parts q)"

section \<open>Interpolator\<close>

text \<open>String concatenation with a value that is \<open>null\<close> or a query.\<close>

fun concat_text :: "jsval \<Rightarrow> string" where
  "concat_text (JQuery p ps c) = render_parts p"
| "concat_text v = ''null''"

text \<open>
  The callback of \<open>reduce\<close>. The last argument is \<open>None\<close> when \<open>i < values.length\<close> fails
  and \<open>values[i]\<close> otherwise.
\<close>

definition interpolate_step :: "SQLQuery \<Rightarrow> string \<Rightarrow> string \<Rightarrow> jsval option \<Rightarrow> string \<times> SQLQuery" where
  "interpolate_step q result str gap =
     (case gap of
        None \<Rightarrow> (result @ str, q)
      | Some v \<Rightarrow>
          if v = JUndefined then (result @ str @ ''NULL'', q)
          else if v \<noteq> JNull \<and> typeof v \<noteq> ''object'' then
            (let c = paramCounter q + 1
             in (result @ str @ ''$'' @ show_nat c,
                 q\<lparr>params := AList.update c v (params q), paramCounter := c\<rparr>))
          else if v \<noteq> JNull \<and> typeof v = ''object'' \<and> \<not> instanceof_SQLQuery v then
            (let c = paramCounter q + 1;
                 paramValue = first_value v
             in (result @ str @ ''$'' @ show_nat c,
                 q\<lparr>params := AList.update c paramValue (params q), paramCounter := c\<rparr>))
          else (result @ str @ concat_text v, q))"

fun interpolate_from :: "SQLQuery \<Rightarrow> string \<Rightarrow> string list \<Rightarrow> jsval list \<Rightarrow> string \<times> SQLQuery" where
  "interpolate_from q result [] vs = (result, q)"
| "interpolate_from q result (s # ss) vs =
     (case interpolate_step q result s (case vs of [] \<Rightarrow> None | v # _ \<Rightarrow> Some v) of
        (r, q') \<Rightarrow> interpolate_from q' r ss (tl vs))"

definition interpolate :: "string list \<Rightarrow> jsval list \<Rightarrow> SQLQuery \<Rightarrow> string \<times> SQLQuery" where
  "interpolate strings vals q = interpolate_from q [] strings vals"

section \<open>Initial-query parser\<close>

datatype section_tag = SecSelect | SecFrom | SecJoins | SecWhere | SecGroupBy | SecOrderBy

definition is_join_line :: "string \<Rightarrow> bool" where
  "is_join_line lower \<longleftrightarrow>
     startsWith lower ''join'' \<or> startsWith lower ''left join'' \<or>
     startsWith lower ''right join'' \<or> startsWith lower ''inner join''"

text \<open>The last branch of the loop body: a line that starts with no keyword.\<close>

definition continuation :: "section_tag option \<Rightarrow> string \<Rightarrow> SQLQuery \<Rightarrow> SQLQuery" where
  "continuation currentSection line q =
     (case currentSection of
        None \<Rightarrow> q
      | Some SecSelect \<Rightarrow>
          if line \<noteq> '','' \<and> \<not> matches_comma_only line then
            (let cleanedLine = strip_leading_comma line;
                 finalLine = strip_trailing_comma cleanedLine
             in if finalLine \<noteq> [] then q\<lparr>parts := (parts q)\<lparr>select := select (parts q) @ [finalLine]\<rparr>\<rparr>
                else q)
          else q
      | Some SecWhere \<Rightarrow> q\<lparr>parts := (parts q)\<lparr>where_conds := where_conds (parts q) @ [line]\<rparr>\<rparr>
      | Some SecGroupBy \<Rightarrow> q\<lparr>parts := (parts q)\<lparr>groupBy := groupBy (parts q) @ [line]\<rparr>\<rparr>
      | Some SecOrderBy \<Rightarrow> q\<lparr>parts := (parts q)\<lparr>orderBy := orderBy (parts q) @ [line]\<rparr>\<rparr>
      | Some _ \<Rightarrow> q)"

text \<open>The body of the \<open>for\<close> loop: the section tag and the query after one line.\<close>

definition parseLine :: "section_tag option \<times> SQLQuery \<Rightarrow> string \<Rightarrow> section_tag option \<times> SQLQuery" where
  "parseLine st line =
     (let currentSection = fst st; q = snd st; lowerLine = toLowerCase line
      in if startsWith lowerLine ''select'' then
           (let fieldsText = trim (substring line 6)
            in (Some SecSelect,
                if fieldsText \<noteq> [] then q\<lparr>parts := (parts q)\<lparr>select := [fieldsText]\<rparr>\<rparr>
                else q\<lparr>parts := (parts q)\<lparr>select := []\<rparr>\<rparr>))
         else if startsWith lowerLine ''from'' then
           (Some SecFrom, q\<lparr>parts := (parts q)\<lparr>from_table := Some (trim (substring line 4))\<rparr>\<rparr>)
         else if is_join_line lowerLine then
           (Some SecJoins, q\<lparr>parts := (parts q)\<lparr>joins := joins (parts q) @ [line]\<rparr>\<rparr>)
         else if startsWith lowerLine ''where'' then
           (Some SecWhere,
            q\<lparr>parts := (parts q)\<lparr>where_conds := where_conds (parts q) @ [trim (substring line 5)]\<rparr>\<rparr>)
         else if startsWith lowerLine ''group by'' then
           (Some SecGroupBy,
            q\<lparr>parts := (parts q)\<lparr>groupBy := groupBy (parts q) @ [trim (substring line 8)]\<rparr>\<rparr>)
         else if startsWith lowerLine ''order by'' then
           (Some SecOrderBy,
            q\<lparr>parts := (parts q)\<lparr>orderBy := orderBy (parts q) @ [trim (substring line 8)]\<rparr>\<rparr>)
         else if startsWith lowerLine ''limit'' then
           (currentSection, q\<lparr>parts := (parts q)\<lparr>limit := Some (trim (substring line 5))\<rparr>\<rparr>)
         else if startsWith lowerLine ''offset'' then
           (currentSection, q\<lparr>parts := (parts q)\<lparr>offset := Some (trim (substring line 6))\<rparr>\<rparr>)
         else (currentSection, continuation currentSection line q))"

definition query_lines :: "string \<Rightarrow> string list" where
  "query_lines query = filter (\<lambda>line. line \<noteq> []) (map trim (split_nl query))"

definition parseInitialQuery :: "string \<Rightarrow> SQLQuery \<Rightarrow> SQLQuery" where
  "parseInitialQuery query q = snd (foldl parseLine (None, q) (query_lines query))"

section \<open>Fragment classifier\<close>

definition parseQuery :: "string \<Rightarrow> SQLQuery \<Rightarrow> SQLQuery" where
  "parseQuery query q =
     (let trimmedQuery = trim query; lowerQuery = toLowerCase trimmedQuery
      in if startsWith lowerQuery ''select'' then parseInitialQuery trimmedQuery q
         else if startsWith lowerQuery ''from'' then
           q\<lparr>parts := (parts q)\<lparr>from_table := Some (trim (substring trimmedQuery 4))\<rparr>\<rparr>
         else if is_join_line lowerQuery then
           q\<lparr>parts := (parts q)\<lparr>joins := joins (parts q) @ [trimmedQuery]\<rparr>\<rparr>
         else if startsWith lowerQuery ''where'' then
           q\<lparr>parts := (parts q)\<lparr>where_conds := where_conds (parts q) @ [trim (substring trimmedQuery 5)]\<rparr>\<rparr>
         else if startsWith lowerQuery ''and '' then
           (if length (where_conds (parts q)) > 0 then
              q\<lparr>parts := (parts q)\<lparr>where_conds :=
                   where_conds (parts q) @ [''AND '' @ trim (substring trimmedQuery 3)]\<rparr>\<rparr>
            else
              q\<lparr>parts := (parts q)\<lparr>where_conds :=
                   where_conds (parts q) @ [trim (substring trimmedQuery 3)]\<rparr>\<rparr>)
         else if startsWith lowerQuery ''or '' then
           (if length (where_conds (parts q)) > 0 then
              q\<lparr>parts := (parts q)\<lparr>where_conds :=
                   where_conds (parts q) @ [''OR '' @ trim (substring trimmedQuery 2)]\<rparr>\<rparr>
            else
              q\<lparr>parts := (parts q)\<lparr>where_conds :=
                   where_conds (parts q) @ [trim (substring trimmedQuery 2)]\<rparr>\<rparr>)
         else if startsWith lowerQuery ''group by'' then
           q\<lparr>parts := (parts q)\<lparr>groupBy := groupBy (parts q) @ [trim (substring trimmedQuery 8)]\<rparr>\<rparr>
         else if startsWith lowerQuery ''order by'' then
           q\<lparr>parts := (parts q)\<lparr>orderBy := orderBy (parts q) @ [trim (substring trimmedQuery 8)]\<rparr>\<rparr>
         else if startsWith lowerQuery ''limit'' then
           q\<lparr>parts := (parts q)\<lparr>limit := Some (trim (substring trimmedQuery 5))\<rparr>\<rparr>
         else if startsWith lowerQuery ''offset'' then
           q\<lparr>parts := (parts q)\<lparr>offset := Some (trim (substring trimmedQuery 6))\<rparr>\<rparr>
         else if length (where_conds (parts q)) > 0 then
           q\<lparr>parts := (parts q)\<lparr>where_conds := where_conds (parts q) @ [''AND '' @ trimmedQuery]\<rparr>\<rparr>
         else
           q\<lparr>parts := (parts q)\<lparr>where_conds := where_conds (parts q) @ [trimmedQuery]\<rparr>\<rparr>)"

section \<open>Construction, extension and parameter export\<close>

text \<open>The constructor; \<open>None\<close> stands for a call without a template.\<close>

definition new_SQLQuery :: "(string list \<times> jsval list) option \<Rightarrow> SQLQuery" where
  "new_SQLQuery tmpl =
     (case tmpl of
        None \<Rightarrow> empty_query
      | Some (strings, vals) \<Rightarrow>
          if length strings > 0 then
            (case interpolate strings vals empty_query of
               (fullQuery, q) \<Rightarrow> parseInitialQuery fullQuery q)
          else empty_query)"

definition sql_tag :: "string list \<Rightarrow> jsval list \<Rightarrow> SQLQuery" where
  \<comment> \<open>the exported function \<open>sql\<close>\<close>
  "sql_tag strings vals = new_SQLQuery (Some (strings, vals))"

definition sql :: "SQLQuery \<Rightarrow> string list \<Rightarrow> jsval list \<Rightarrow> SQLQuery" where
  \<comment> \<open>the method \<open>sql\<close>; the copy of the state is the state itself, as values have no identity\<close>
  "sql this strings vals =
     (let newQuery = \<lparr> parts = parts this, params = params this, paramCounter = paramCounter this \<rparr>
      in case interpolate strings vals newQuery of
           (fragment, newQuery') \<Rightarrow> parseQuery fragment newQuery')"

definition param_at :: "(nat \<times> jsval) list \<Rightarrow> nat \<Rightarrow> jsval" where
  \<comment> \<open>\<open>this.params[i]\<close>; a missing key reads as \<open>undefined\<close>\<close>
  "param_at ps i = (case map_of ps i of None \<Rightarrow> JUndefined | Some v \<Rightarrow> v)"

definition parameters :: "SQLQuery \<Rightarrow> jsval list" where
  "parameters q =
     (if length (map fst (params q)) = 0 then []
      else (let maxParam = Max (set (map fst (params q)))
            in map (\<lambda>i. param_at (params q) i) [1..<maxParam + 1]))"

section \<open>Command-line driver\<close>

definition clause_of_flag :: "string \<Rightarrow> string option" where
  "clause_of_flag arg =
     (if arg = ''--where'' then Some ''WHERE''
      else if arg = ''--and'' then Some ''AND''
      else if arg = ''--or'' then Some ''OR''
      else if arg = ''--join'' then Some ''JOIN''
      else if arg = ''--left-join'' then Some ''LEFT JOIN''
      else if arg = ''--right-join'' then Some ''RIGHT JOIN''
      else if arg = ''--inner-join'' then Some ''INNER JOIN''
      else if arg = ''--group-by'' then Some ''GROUP BY''
      else if arg = ''--order-by'' then Some ''ORDER BY''
      else if arg = ''--limit'' then Some ''LIMIT''
      else if arg = ''--offset'' then Some ''OFFSET''
      else None)"

text \<open>
  The loop of \<open>main\<close> over the arguments: a clause flag that has a successor consumes it
  and classifies \<open>clause + " " + condition\<close>; anything else is stepped over.
\<close>

fun apply_args :: "string list \<Rightarrow> SQLQuery \<Rightarrow> SQLQuery" where
  "apply_args (arg # condition # rest) q =
     (case clause_of_flag arg of
        Some clause \<Rightarrow> apply_args rest (parseQuery (clause @ '' '' @ condition) q)
      | None \<Rightarrow> apply_args (condition # rest) q)"
| "apply_args args q = q"

definition cli_output :: "string \<Rightarrow> string list \<Rightarrow> string" where
  \<comment> \<open>the query text that \<open>main\<close> prints for a base query and the argument vector\<close>
  "cli_output baseQuery args =
     toString (apply_args args (parseInitialQuery baseQuery (new_SQLQuery None)))"

section \<open>Predicates used to state the properties\<close>




definition fragment_keyword :: "string \<Rightarrow> bool" where
  "fragment_keyword lower \<longleftrightarrow>
     startsWith lower ''select'' \<or> startsWith lower ''from'' \<or> is_join_line lower \<or>
     startsWith lower ''where'' \<or> startsWith lower ''and '' \<or> startsWith lower ''or '' \<or>
     startsWith lower ''group by'' \<or> startsWith lower ''order by'' \<or>
     startsWith lower ''limit'' \<or> startsWith lower ''offset''"

definition select_clean :: "SQLQuery \<Rightarrow> bool" where
  \<comment> \<open>no select entry is the empty string\<close>
  "select_clean q \<longleftrightarrow> [] \<notin> set (select (parts q))"





section \<open>States reachable through the public operations\<close>

inductive reachable :: "SQLQuery \<Rightarrow> bool" where
  constructed: "reachable (new_SQLQuery tmpl)"
| initial_parsed: "reachable q \<Longrightarrow> reachable (parseInitialQuery query q)"
| classified: "reachable q \<Longrightarrow> reachable (parseQuery query q)"
| extended: "reachable q \<Longrightarrow> reachable (sql q strings vals)"

section \<open>The same operations on a store of objects\<close>

text \<open>
  The class mutates \<open>this\<close> in place: arrays are pushed to, fields are assigned. To state
  that an extension leaves its receiver alone, the operations are written here a second
  time over an explicit store, where a query object refers to its \<open>parts\<close> object and its
  \<open>params\<close> object by address and the \<open>parts\<close> object refers to its five arrays by address.
  Addresses are allocated in increasing order from \<open>next_free\<close>.
\<close>

record parts_obj =
  select_ref :: nat
  from_val :: "string option"
  joins_ref :: nat
  where_ref :: nat
  groupBy_ref :: nat
  orderBy_ref :: nat
  limit_val :: "string option"
  offset_val :: "string option"

record query_obj =
  parts_ref :: nat
  params_ref :: nat
  counter :: nat

record heap =
  arrays :: "nat \<Rightarrow> string list"
  parts_objs :: "nat \<Rightarrow> parts_obj"
  params_objs :: "nat \<Rightarrow> (nat \<times> jsval) list"
  query_objs :: "nat \<Rightarrow> query_obj"
  next_free :: nat

definition this_parts :: "heap \<Rightarrow> nat \<Rightarrow> parts_obj" where
  \<comment> \<open>\<open>this.parts\<close>\<close>
  "this_parts h this = parts_objs h (parts_ref (query_objs h this))"

definition this_params :: "heap \<Rightarrow> nat \<Rightarrow> (nat \<times> jsval) list" where
  \<comment> \<open>\<open>this.params\<close>\<close>
  "this_params h this = params_objs h (params_ref (query_objs h this))"

text \<open>The state of the query object at an address, read off the store.\<close>

definition read_parts :: "heap \<Rightarrow> nat \<Rightarrow> QueryParts" where
  "read_parts h p =
     \<lparr> select = arrays h (select_ref (parts_objs h p)),
       from_table = from_val (parts_objs h p),
       joins = arrays h (joins_ref (parts_objs h p)),
       where_conds = arrays h (where_ref (parts_objs h p)),
       groupBy = arrays h (groupBy_ref (parts_objs h p)),
       orderBy = arrays h (orderBy_ref (parts_objs h p)),
       limit = limit_val (parts_objs h p),
       offset = offset_val (parts_objs h p) \<rparr>"

definition read_query :: "heap \<Rightarrow> nat \<Rightarrow> SQLQuery" where
  "read_query h this =
     \<lparr> parts = read_parts h (parts_ref (query_objs h this)),
       params = this_params h this,
       paramCounter = counter (query_objs h this) \<rparr>"

subsection \<open>Allocation and the single mutations\<close>

definition new_array :: "string list \<Rightarrow> heap \<Rightarrow> nat \<times> heap" where
  "new_array xs h =
     (next_free h, h\<lparr>arrays := (arrays h)(next_free h := xs), next_free := next_free h + 1\<rparr>)"

definition new_parts_obj :: "parts_obj \<Rightarrow> heap \<Rightarrow> nat \<times> heap" where
  "new_parts_obj p h =
     (next_free h, h\<lparr>parts_objs := (parts_objs h)(next_free h := p), next_free := next_free h + 1\<rparr>)"

definition new_params_obj :: "(nat \<times> jsval) list \<Rightarrow> heap \<Rightarrow> nat \<times> heap" where
  "new_params_obj ps h =
     (next_free h, h\<lparr>params_objs := (params_objs h)(next_free h := ps), next_free := next_free h + 1\<rparr>)"

definition new_query_obj :: "query_obj \<Rightarrow> heap \<Rightarrow> nat \<times> heap" where
  "new_query_obj qo h =
     (next_free h, h\<lparr>query_objs := (query_objs h)(next_free h := qo), next_free := next_free h + 1\<rparr>)"

datatype bucket = BSelect | BJoins | BWhere | BGroupBy | BOrderBy

fun bucket_ref :: "bucket \<Rightarrow> parts_obj \<Rightarrow> nat" where
  "bucket_ref BSelect p = select_ref p"
| "bucket_ref BJoins p = joins_ref p"
| "bucket_ref BWhere p = where_ref p"
| "bucket_ref BGroupBy p = groupBy_ref p"
| "bucket_ref BOrderBy p = orderBy_ref p"

definition push :: "bucket \<Rightarrow> string \<Rightarrow> nat \<Rightarrow> heap \<Rightarrow> heap" where
  \<comment> \<open>\<open>this.parts.b.push(x)\<close>: the array the field refers to grows in place\<close>
  "push b x this h =
     (let r = bucket_ref b (this_parts h this)
      in h\<lparr>arrays := (arrays h)(r := arrays h r @ [x])\<rparr>)"

definition assign_select :: "string list \<Rightarrow> nat \<Rightarrow> heap \<Rightarrow> heap" where
  \<comment> \<open>\<open>this.parts.select = [...]\<close>: a new array, and the field made to refer to it\<close>
  "assign_select xs this h =
     (case new_array xs h of
        (r, h1) \<Rightarrow>
          (let p = parts_ref (query_objs h1 this)
           in h1\<lparr>parts_objs := (parts_objs h1)(p := (parts_objs h1 p)\<lparr>select_ref := r\<rparr>)\<rparr>))"

definition assign_from :: "string \<Rightarrow> nat \<Rightarrow> heap \<Rightarrow> heap" where
  "assign_from v this h =
     (let p = parts_ref (query_objs h this)
      in h\<lparr>parts_objs := (parts_objs h)(p := (parts_objs h p)\<lparr>from_val := Some v\<rparr>)\<rparr>)"

definition assign_limit :: "string \<Rightarrow> nat \<Rightarrow> heap \<Rightarrow> heap" where
  "assign_limit v this h =
     (let p = parts_ref (query_objs h this)
      in h\<lparr>parts_objs := (parts_objs h)(p := (parts_objs h p)\<lparr>limit_val := Some v\<rparr>)\<rparr>)"

definition assign_offset :: "string \<Rightarrow> nat \<Rightarrow> heap \<Rightarrow> heap" where
  "assign_offset v this h =
     (let p = parts_ref (query_objs h this)
      in h\<lparr>parts_objs := (parts_objs h)(p := (parts_objs h p)\<lparr>offset_val := Some v\<rparr>)\<rparr>)"

definition assign_counter :: "nat \<Rightarrow> nat \<Rightarrow> heap \<Rightarrow> heap" where
  "assign_counter c this h =
     h\<lparr>query_objs := (query_objs h)(this := (query_objs h this)\<lparr>counter := c\<rparr>)\<rparr>"

definition store_param :: "nat \<Rightarrow> jsval \<Rightarrow> nat \<Rightarrow> heap \<Rightarrow> heap" where
  \<comment> \<open>\<open>this.params[c] = v\<close>\<close>
  "store_param c v this h =
     (let r = params_ref (query_objs h this)
      in h\<lparr>params_objs := (params_objs h)(r := AList.update c v (params_objs h r))\<rparr>)"

subsection \<open>The methods\<close>

definition h_interpolate_step :: "nat \<Rightarrow> heap \<Rightarrow> string \<Rightarrow> string \<Rightarrow> jsval option \<Rightarrow> string \<times> heap" where
  "h_interpolate_step this h result str gap =
     (case gap of
        None \<Rightarrow> (result @ str, h)
      | Some v \<Rightarrow>
          if v = JUndefined then (result @ str @ ''NULL'', h)
          else if v \<noteq> JNull \<and> typeof v \<noteq> ''object'' then
            (let h1 = assign_counter (counter (query_objs h this) + 1) this h;
                 h2 = store_param (counter (query_objs h1 this)) v this h1
             in (result @ str @ ''$'' @ show_nat (counter (query_objs h2 this)), h2))
          else if v \<noteq> JNull \<and> typeof v = ''object'' \<and> \<not> instanceof_SQLQuery v then
            (let h1 = assign_counter (counter (query_objs h this) + 1) this h;
                 paramValue = first_value v;
                 h2 = store_param (counter (query_objs h1 this)) paramValue this h1
             in (result @ str @ ''$'' @ show_nat (counter (query_objs h2 this)), h2))
          else (result @ str @ concat_text v, h))"

fun h_interpolate_from :: "nat \<Rightarrow> heap \<Rightarrow> string \<Rightarrow> string list \<Rightarrow> jsval list \<Rightarrow> string \<times> heap" where
  "h_interpolate_from this h result [] vs = (result, h)"
| "h_interpolate_from this h result (s # ss) vs =
     (case h_interpolate_step this h result s (case vs of [] \<Rightarrow> None | v # _ \<Rightarrow> Some v) of
        (r, h') \<Rightarrow> h_interpolate_from this h' r ss (tl vs))"

definition h_interpolate :: "string list \<Rightarrow> jsval list \<Rightarrow> nat \<Rightarrow> heap \<Rightarrow> string \<times> heap" where
  "h_interpolate strings vals this h = h_interpolate_from this h [] strings vals"

definition h_continuation :: "section_tag option \<Rightarrow> string \<Rightarrow> nat \<Rightarrow> heap \<Rightarrow> heap" where
  "h_continuation currentSection line this h =
     (case currentSection of
        None \<Rightarrow> h
      | Some SecSelect \<Rightarrow>
          if line \<noteq> '','' \<and> \<not> matches_comma_only line then
            (let cleanedLine = strip_leading_comma line;
                 finalLine = strip_trailing_comma cleanedLine
             in if finalLine \<noteq> [] then push BSelect finalLine this h else h)
          else h
      | Some SecWhere \<Rightarrow> push BWhere line this h
      | Some SecGroupBy \<Rightarrow> push BGroupBy line this h
      | Some SecOrderBy \<Rightarrow> push BOrderBy line this h
      | Some _ \<Rightarrow> h)"

definition h_parseLine :: "nat \<Rightarrow> section_tag option \<times> heap \<Rightarrow> string \<Rightarrow> section_tag option \<times> heap" where
  "h_parseLine this st line =
     (let currentSection = fst st; h = snd st; lowerLine = toLowerCase line
      in if startsWith lowerLine ''select'' then
           (let fieldsText = trim (substring line 6)
            in (Some SecSelect,
                if fieldsText \<noteq> [] then assign_select [fieldsText] this h
                else assign_select [] this h))
         else if startsWith lowerLine ''from'' then
           (Some SecFrom, assign_from (trim (substring line 4)) this h)
         else if is_join_line lowerLine then
           (Some SecJoins, push BJoins line this h)
         else if startsWith lowerLine ''where'' then
           (Some SecWhere, push BWhere (trim (substring line 5)) this h)
         else if startsWith lowerLine ''group by'' then
           (Some SecGroupBy, push BGroupBy (trim (substring line 8)) this h)
         else if startsWith lowerLine ''order by'' then
           (Some SecOrderBy, push BOrderBy (trim (substring line 8)) this h)
         else if startsWith lowerLine ''limit'' then
           (currentSection, assign_limit (trim (substring line 5)) this h)
         else if startsWith lowerLine ''offset'' then
           (currentSection, assign_offset (trim (substring line 6)) this h)
         else (currentSection, h_continuation currentSection line this h))"

definition h_parseInitialQuery :: "string \<Rightarrow> nat \<Rightarrow> heap \<Rightarrow> heap" where
  "h_parseInitialQuery query this h = snd (foldl (h_parseLine this) (None, h) (query_lines query))"

definition h_parseQuery :: "string \<Rightarrow> nat \<Rightarrow> heap \<Rightarrow> heap" where
  "h_parseQuery query this h =
     (let trimmedQuery = trim query; lowerQuery = toLowerCase trimmedQuery
      in if startsWith lowerQuery ''select'' then h_parseInitialQuery trimmedQuery this h
         else if startsWith lowerQuery ''from'' then
           assign_from (trim (substring trimmedQuery 4)) this h
         else if is_join_line lowerQuery then push BJoins trimmedQuery this h
         else if startsWith lowerQuery ''where'' then
           push BWhere (trim (substring trimmedQuery 5)) this h
         else if startsWith lowerQuery ''and '' then
           (if length (arrays h (where_ref (this_parts h this))) > 0 then
              push BWhere (''AND '' @ trim (substring trimmedQuery 3)) this h
            else push BWhere (trim (substring trimmedQuery 3)) this h)
         else if startsWith lowerQuery ''or '' then
           (if length (arrays h (where_ref (this_parts h this))) > 0 then
              push BWhere (''OR '' @ trim (substring trimmedQuery 2)) this h
            else push BWhere (trim (substring trimmedQuery 2)) this h)
         else if startsWith lowerQuery ''group by'' then
           push BGroupBy (trim (substring trimmedQuery 8)) this h
         else if startsWith lowerQuery ''order by'' then
           push BOrderBy (trim (substring trimmedQuery 8)) this h
         else if startsWith lowerQuery ''limit'' then
           assign_limit (trim (substring trimmedQuery 5)) this h
         else if startsWith lowerQuery ''offset'' then
           assign_offset (trim (substring trimmedQuery 6)) this h
         else if length (arrays h (where_ref (this_parts h this))) > 0 then
           push BWhere (''AND '' @ trimmedQuery) this h
         else push BWhere trimmedQuery this h)"

text \<open>The constructor called without a template: fresh empty arrays and objects.\<close>

definition h_new_SQLQuery :: "heap \<Rightarrow> nat \<times> heap" where
  "h_new_SQLQuery h =
     (case new_array [] h of (s, h1) \<Rightarrow>
      case new_array [] h1 of (j, h2) \<Rightarrow>
      case new_array [] h2 of (w, h3) \<Rightarrow>
      case new_array [] h3 of (g, h4) \<Rightarrow>
      case new_array [] h4 of (ob, h5) \<Rightarrow>
      case new_parts_obj \<lparr> select_ref = s, from_val = None, joins_ref = j, where_ref = w,
             groupBy_ref = g, orderBy_ref = ob, limit_val = None, offset_val = None \<rparr> h5 of (p, h6) \<Rightarrow>
      case new_params_obj [] h6 of (ps, h7) \<Rightarrow>
        new_query_obj \<lparr> parts_ref = p, params_ref = ps, counter = 0 \<rparr> h7)"

text \<open>
  \<open>structuredClone\<close> of a \<open>parts\<close> object whose five arrays are distinct objects: a new
  object that refers to new arrays with the same contents.
\<close>

definition structuredClone :: "nat \<Rightarrow> heap \<Rightarrow> nat \<times> heap" where
  "structuredClone p h =
     (let src = parts_objs h p in
      case new_array (arrays h (select_ref src)) h of (s, h1) \<Rightarrow>
      case new_array (arrays h (joins_ref src)) h1 of (j, h2) \<Rightarrow>
      case new_array (arrays h (where_ref src)) h2 of (w, h3) \<Rightarrow>
      case new_array (arrays h (groupBy_ref src)) h3 of (g, h4) \<Rightarrow>
      case new_array (arrays h (orderBy_ref src)) h4 of (ob, h5) \<Rightarrow>
        new_parts_obj \<lparr> select_ref = s, from_val = from_val src, joins_ref = j, where_ref = w,
             groupBy_ref = g, orderBy_ref = ob, limit_val = limit_val src,
             offset_val = offset_val src \<rparr> h5)"

text \<open>The first four statements of the method \<open>sql\<close>: the copy of the receiver.\<close>

definition copy_query :: "nat \<Rightarrow> heap \<Rightarrow> nat \<times> heap" where
  "copy_query this h =
     (case h_new_SQLQuery h of (newQuery, h1) \<Rightarrow>
      case structuredClone (parts_ref (query_objs h1 this)) h1 of (p, h2) \<Rightarrow>
      let h3 = h2\<lparr>query_objs := (query_objs h2)(newQuery := (query_objs h2 newQuery)\<lparr>parts_ref := p\<rparr>)\<rparr> in
      case new_params_obj (this_params h3 this) h3 of (ps, h4) \<Rightarrow>
      let h5 = h4\<lparr>query_objs := (query_objs h4)(newQuery := (query_objs h4 newQuery)\<lparr>params_ref := ps\<rparr>)\<rparr>
      in (newQuery, assign_counter (counter (query_objs h5 this)) newQuery h5))"

definition h_sql :: "nat \<Rightarrow> string list \<Rightarrow> jsval list \<Rightarrow> heap \<Rightarrow> nat \<times> heap" where
  "h_sql this strings vals h =
     (case copy_query this h of (newQuery, h6) \<Rightarrow>
      case h_interpolate strings vals newQuery h6 of
        (fragment, h7) \<Rightarrow> (newQuery, h_parseQuery fragment newQuery h7))"

text \<open>
  An object is allocated below \<open>n\<close> when it, its \<open>parts\<close> object, its \<open>params\<close> object and
  its five arrays have addresses below \<open>n\<close>, the arrays being five distinct objects.
\<close>

definition array_refs :: "parts_obj \<Rightarrow> nat list" where
  "array_refs p = [select_ref p, joins_ref p, where_ref p, groupBy_ref p, orderBy_ref p]"

definition allocated :: "heap \<Rightarrow> nat \<Rightarrow> bool" where
  "allocated h this \<longleftrightarrow>
     this < next_free h \<and> parts_ref (query_objs h this) < next_free h \<and>
     params_ref (query_objs h this) < next_free h \<and>
     list_all (\<lambda>r. r < next_free h) (array_refs (this_parts h this)) \<and>
     distinct (array_refs (this_parts h this))"

text \<open>The cells of the store below an address are the same in two stores.\<close>

definition same_below :: "nat \<Rightarrow> heap \<Rightarrow> heap \<Rightarrow> bool" where
  "same_below n h h' \<longleftrightarrow>
     (\<forall>x < n. arrays h' x = arrays h x \<and> parts_objs h' x = parts_objs h x \<and>
        params_objs h' x = params_objs h x \<and> query_objs h' x = query_objs h x)"

text \<open>An object that lives wholly at or above \<open>n\<close>.\<close>

definition fresh_from :: "nat \<Rightarrow> heap \<Rightarrow> nat \<Rightarrow> bool" where
  "fresh_from n h this \<longleftrightarrow>
     allocated h this \<and> n \<le> this \<and> n \<le> parts_ref (query_objs h this) \<and>
     n \<le> params_ref (query_objs h this) \<and>
     list_all (\<lambda>r. n \<le> r) (array_refs (this_parts h this))"

text \<open>
  One step of a method on the object at \<open>this\<close>, which lives at or above \<open>n\<close>: the object
  still lives there, the cells below \<open>n\<close> are as before, and the object now reads as \<open>q'\<close>.
\<close>

definition step_ok :: "nat \<Rightarrow> heap \<Rightarrow> nat \<Rightarrow> heap \<Rightarrow> SQLQuery \<Rightarrow> bool" where
  "step_ok n h this h' q' \<longleftrightarrow>
     fresh_from n h' this \<and> same_below n h h' \<and> next_free h \<le> next_free h' \<and> read_query h' this = q'"

text \<open>What \<open>push\<close> does to the state read off the store.\<close>

fun pure_push :: "bucket \<Rightarrow> string \<Rightarrow> SQLQuery \<Rightarrow> SQLQuery" where
  "pure_push BSelect x q = q\<lparr>parts := (parts q)\<lparr>select := select (parts q) @ [x]\<rparr>\<rparr>"
| "pure_push BJoins x q = q\<lparr>parts := (parts q)\<lparr>joins := joins (parts q) @ [x]\<rparr>\<rparr>"
| "pure_push BWhere x q = q\<lparr>parts := (parts q)\<lparr>where_conds := where_conds (parts q) @ [x]\<rparr>\<rparr>"
| "pure_push BGroupBy x q = q\<lparr>parts := (parts q)\<lparr>groupBy := groupBy (parts q) @ [x]\<rparr>\<rparr>"
| "pure_push BOrderBy x q = q\<lparr>parts := (parts q)\<lparr>orderBy := orderBy (parts q) @ [x]\<rparr>\<rparr>"

text \<open>A store in which nothing has been allocated yet.\<close>

definition empty_heap :: heap where
  "empty_heap =
     \<lparr> arrays = (\<lambda>_. []),
       parts_objs = (\<lambda>_. \<lparr> select_ref = 0, from_val = None, joins_ref = 0, where_ref = 0,
          groupBy_ref = 0, orderBy_ref = 0, limit_val = None, offset_val = None \<rparr>),
       params_objs = (\<lambda>_. []),
       query_objs = (\<lambda>_. \<lparr> parts_ref = 0, params_ref = 0, counter = 0 \<rparr>),
       next_free = 0 \<rparr>"

section \<open>Facts about the string operations\<close>

lemma startsWith_Nil [simp]: "startsWith s []"
  by (simp add: startsWith_def)

lemma startsWith_Nil_Cons [simp]: "\<not> startsWith [] (c # p)"
  by (simp add: startsWith_def)

lemma startsWith_Cons_Cons [simp]: "startsWith (x # s) (c # p) \<longleftrightarrow> x = c \<and> startsWith s p"
  by (simp add: startsWith_def)

section \<open>Interpolation of one gap\<close>






section \<open>Fragment classifier\<close>

lemma parseQuery_unrecognised:
  assumes "\<not> fragment_keyword (toLowerCase (trim fragment))"
  shows "parseQuery fragment q =
     (if length (where_conds (parts q)) > 0
      then q\<lparr>parts := (parts q)\<lparr>where_conds := where_conds (parts q) @ [''AND '' @ trim fragment]\<rparr>\<rparr>
      else q\<lparr>parts := (parts q)\<lparr>where_conds := where_conds (parts q) @ [trim fragment]\<rparr>\<rparr>)"
  using assms by (simp add: parseQuery_def fragment_keyword_def Let_def)

text \<open>
  C4. A fragment whose trimmed, lower-cased text starts with none of the classifier's
  keywords (\<open>select\<close>, \<open>from\<close>, the four join keywords, \<open>where\<close>, \<open>and \<close>, \<open>or \<close>,
  \<open>group by\<close>, \<open>order by\<close>, \<open>limit\<close>, \<open>offset\<close>) is appended to \<open>where\<close>: behind the prefix
  \<open>AND \<close> when \<open>where\<close> already has an entry, and bare when it has none; the entry is the
  trimmed fragment and the connective is never \<open>OR \<close>. The base \<open>WHERE id = 1\<close> extended with
  \<open>name = 'John'\<close> renders the WHERE block \<open>WHERE id = 1\n  AND name = 'John'\<close>.
\<close>

theorem bare_condition_defaults_to_and:
  assumes "\<not> fragment_keyword (toLowerCase (trim fragment))"
  shows "where_conds (parts (parseQuery fragment q)) =
           where_conds (parts q) @
             [if where_conds (parts q) \<noteq> [] then ''AND '' @ trim fragment else trim fragment]
       \<and> ''AND '' @ trim fragment \<noteq> ''OR '' @ trim fragment
       \<and> where_block (parts (sql (sql_tag [''WHERE id = 1''] []) [''name = 'John'' @ [CHR 0x27]] []))
           = [''WHERE id = 1\<newline>  AND name = 'John'' @ [CHR 0x27]]
       \<and> toString (sql (sql (sql_tag [''SELECT * FROM users''] []) [''WHERE id = 1''] [])
                      [''name = 'John'' @ [CHR 0x27]] [])
           = ''SELECT\<newline>  * FROM users\<newline>WHERE id = 1\<newline>  AND name = 'John'' @ [CHR 0x27]"
proof -
  have general: "where_conds (parts (parseQuery fragment q)) =
           where_conds (parts q) @
             [if where_conds (parts q) \<noteq> [] then ''AND '' @ trim fragment else trim fragment]"
    by (simp add: parseQuery_unrecognised [OF assms])
  have block: "where_block (parts (sql (sql_tag [''WHERE id = 1''] []) [''name = 'John'' @ [CHR 0x27]] []))
           = [''WHERE id = 1\<newline>  AND name = 'John'' @ [CHR 0x27]]"
    by code_simp
  have whole: "toString (sql (sql (sql_tag [''SELECT * FROM users''] []) [''WHERE id = 1''] [])
                      [''name = 'John'' @ [CHR 0x27]] [])
           = ''SELECT\<newline>  * FROM users\<newline>WHERE id = 1\<newline>  AND name = 'John'' @ [CHR 0x27]"
    by code_simp
  from general block whole show ?thesis by simp
qed

theorem bare_condition_defaults_to_and_witness:
  "where_conds (parts (parseQuery ''  active = true ''
      \<lparr>parts = empty_parts\<lparr>where_conds := [''id = 1'']\<rparr>, params = [], paramCounter = 0\<rparr>))
     = [''id = 1'', ''AND active = true'']
   \<and> where_conds (parts (parseQuery ''  active = true '' empty_query)) = [''active = true'']"
proof -
  have h: "\<not> fragment_keyword (toLowerCase (trim ''  active = true ''))"
    by code_simp
  have t: "trim ''  active = true '' = ''active = true''"
    by code_simp
  show ?thesis
    using bare_condition_defaults_to_and [OF h, of "\<lparr>parts = empty_parts\<lparr>where_conds := [''id = 1'']\<rparr>, params = [], paramCounter = 0\<rparr>"]
      bare_condition_defaults_to_and [OF h, of empty_query]
    by (simp add: t empty_query_def empty_parts_def)
qed

text \<open>
  C7. The classifier is a total function from a state and a string to a state: the source
  has no failing branch, so the model has no error result. Text that starts with none of the
  recognised keywords goes to \<open>where\<close> and nowhere else: the \<open>where\<close> bucket gains exactly one
  entry, which is the trimmed text or the trimmed text behind \<open>AND \<close>, and every other bucket,
  both scalars, the parameters and the counter are as before.
\<close>

theorem unrecognised_text_lands_in_where:
  assumes "\<not> fragment_keyword (toLowerCase (trim txt))"
  shows "(\<exists>entry. where_conds (parts (parseQuery txt q)) = where_conds (parts q) @ [entry]
            \<and> (entry = trim txt \<or> entry = ''AND '' @ trim txt))
       \<and> select (parts (parseQuery txt q)) = select (parts q)
       \<and> from_table (parts (parseQuery txt q)) = from_table (parts q)
       \<and> joins (parts (parseQuery txt q)) = joins (parts q)
       \<and> groupBy (parts (parseQuery txt q)) = groupBy (parts q)
       \<and> orderBy (parts (parseQuery txt q)) = orderBy (parts q)
       \<and> limit (parts (parseQuery txt q)) = limit (parts q)
       \<and> offset (parts (parseQuery txt q)) = offset (parts q)
       \<and> params (parseQuery txt q) = params q
       \<and> paramCounter (parseQuery txt q) = paramCounter q"
  by (simp add: parseQuery_unrecognised [OF assms])

theorem unrecognised_text_lands_in_where_witness:
  "(\<exists>entry. where_conds (parts (parseQuery ''hello world'' empty_query)) = [] @ [entry]
            \<and> (entry = ''hello world'' \<or> entry = ''AND hello world''))
   \<and> select (parts (parseQuery ''hello world'' empty_query)) = []
   \<and> limit (parts (parseQuery ''hello world'' empty_query)) = None"
proof -
  have h: "\<not> fragment_keyword (toLowerCase (trim ''hello world''))"
    by code_simp
  have t: "trim ''hello world'' = ''hello world''"
    by code_simp
  show ?thesis
    using unrecognised_text_lands_in_where [OF h, of empty_query]
    by (simp add: t empty_query_def empty_parts_def)
qed

section \<open>Initial-query parser\<close>










section \<open>Line wrapping of the SELECT list\<close>

lemma split_nl_not_Nil [simp]: "split_nl s \<noteq> []"
  by (induction s) (auto split: list.splits)





















lemma ws_facts [simp]:
  "is_ws (CHR '' '')" "\<not> is_ws (CHR '','')" "\<not> is_ws (CHR ''S'')" "\<not> is_ws (CHR ''T'')"
  by (simp_all add: is_ws_def)



















section \<open>Invariant of the select bucket\<close>

lemma interpolate_step_parts: "parts (snd (interpolate_step q r s g)) = parts q"
  by (simp add: interpolate_step_def Let_def split: option.splits)

lemma interpolate_from_parts: "parts (snd (interpolate_from q r ss vs)) = parts q"
proof (induction ss arbitrary: q r vs)
  case Nil
  then show ?case by simp
next
  case (Cons s ss)
  obtain r' q' where st: "interpolate_step q r s (case vs of [] \<Rightarrow> None | v # _ \<Rightarrow> Some v) = (r', q')"
    by (cases "interpolate_step q r s (case vs of [] \<Rightarrow> None | v # _ \<Rightarrow> Some v)")
  have "parts q' = parts q"
    using interpolate_step_parts [of q r s "case vs of [] \<Rightarrow> None | v # _ \<Rightarrow> Some v"] st by simp
  then show ?case using Cons.IH [of q' r' "tl vs"] st by simp
qed

lemma interpolate_parts: "parts (snd (interpolate strings vals q)) = parts q"
  by (simp add: interpolate_def interpolate_from_parts)

lemma continuation_select_clean: "select_clean q \<Longrightarrow> select_clean (continuation cs line q)"
  by (auto simp: continuation_def select_clean_def Let_def split: option.splits section_tag.splits)

lemma parseLine_select_clean: "select_clean (snd st) \<Longrightarrow> select_clean (snd (parseLine st line))"
  using continuation_select_clean [of "snd st" "fst st" line]
  by (auto simp: parseLine_def Let_def select_clean_def)

lemma foldl_parseLine_select_clean:
  "select_clean (snd st) \<Longrightarrow> select_clean (snd (foldl parseLine st ls))"
  by (induction ls arbitrary: st) (simp_all add: parseLine_select_clean)

lemma parseInitialQuery_select_clean: "select_clean q \<Longrightarrow> select_clean (parseInitialQuery query q)"
  by (simp add: parseInitialQuery_def foldl_parseLine_select_clean)

lemma parseQuery_select_clean: "select_clean q \<Longrightarrow> select_clean (parseQuery query q)"
  using parseInitialQuery_select_clean [of q "trim query"]
  by (auto simp: parseQuery_def Let_def select_clean_def)

lemma select_clean_parts: "parts q' = parts q \<Longrightarrow> select_clean q' = select_clean q"
  by (simp add: select_clean_def)

lemma new_SQLQuery_select_clean: "select_clean (new_SQLQuery tmpl)"
proof (cases tmpl)
  case None
  then show ?thesis by (simp add: new_SQLQuery_def select_clean_def empty_query_def empty_parts_def)
next
  case (Some t)
  obtain strings vals where t: "t = (strings, vals)" by (cases t)
  obtain r q' where i: "interpolate strings vals empty_query = (r, q')"
    by (cases "interpolate strings vals empty_query")
  have "parts q' = parts empty_query" using interpolate_parts [of strings vals empty_query] i by simp
  then have "select_clean q'"
    by (simp add: select_clean_def empty_query_def empty_parts_def)
  then have p: "select_clean (parseInitialQuery r q')"
    by (rule parseInitialQuery_select_clean)
  have e: "select_clean empty_query"
    by (simp add: select_clean_def empty_query_def empty_parts_def)
  show ?thesis using Some t i p e
    by (simp add: new_SQLQuery_def)
qed

lemma sql_select_clean: "select_clean q \<Longrightarrow> select_clean (sql q strings vals)"
proof -
  assume c: "select_clean q"
  let ?n = "\<lparr>parts = parts q, params = params q, paramCounter = paramCounter q\<rparr>"
  obtain r q' where i: "interpolate strings vals ?n = (r, q')"
    by (cases "interpolate strings vals ?n")
  have "parts q' = parts q" using interpolate_parts [of strings vals ?n] i by simp
  then have "select_clean q'" using c by (simp add: select_clean_def)
  then show ?thesis using i by (simp add: sql_def Let_def parseQuery_select_clean)
qed

lemma reachable_select_clean: "reachable q \<Longrightarrow> select_clean q"
  by (induction rule: reachable.induct)
    (simp_all add: new_SQLQuery_select_clean parseInitialQuery_select_clean
      parseQuery_select_clean sql_select_clean)

text \<open>
  C8, as the code has it. On every state reachable through construction, initial-query
  parsing, fragment classification and extension, the \<open>select\<close> bucket holds no empty
  string: an empty remainder after \<open>SELECT\<close> and a continuation line emptied by the comma
  clean-up are dropped when the state is built. Entries of \<open>groupBy\<close> and \<open>orderBy\<close> are
  stored as given; those equal to the empty string or to a bare comma are left out when
  the GROUP BY and ORDER BY blocks are rendered.
\<close>

theorem select_holds_no_empty_string:
  assumes "reachable q"
  shows "[] \<notin> set (select (parts q))
       \<and> groupBy_block (parts q) =
           (if filter valid_entry (groupBy (parts q)) = [] then []
            else [''GROUP BY '' @ join (filter valid_entry (groupBy (parts q))) '', ''])
       \<and> orderBy_block (parts q) =
           (if filter valid_entry (orderBy (parts q)) = [] then []
            else [''ORDER BY '' @ join (filter valid_entry (orderBy (parts q))) '', ''])
       \<and> [] \<notin> set (filter valid_entry (groupBy (parts q)))
       \<and> '','' \<notin> set (filter valid_entry (groupBy (parts q)))
       \<and> [] \<notin> set (filter valid_entry (orderBy (parts q)))
       \<and> '','' \<notin> set (filter valid_entry (orderBy (parts q)))"
proof -
  have sel: "[] \<notin> set (select (parts q))"
    using reachable_select_clean [OF assms] by (simp add: select_clean_def)
  have g: "groupBy_block (parts q) =
           (if filter valid_entry (groupBy (parts q)) = [] then []
            else [''GROUP BY '' @ join (filter valid_entry (groupBy (parts q))) '', ''])"
    by (cases "groupBy (parts q)") (simp_all add: groupBy_block_def Let_def)
  have o: "orderBy_block (parts q) =
           (if filter valid_entry (orderBy (parts q)) = [] then []
            else [''ORDER BY '' @ join (filter valid_entry (orderBy (parts q))) '', ''])"
    by (cases "orderBy (parts q)") (simp_all add: orderBy_block_def Let_def)
  have f: "[] \<notin> set (filter valid_entry xs) \<and> '','' \<notin> set (filter valid_entry xs)" for xs
    by (simp add: valid_entry_def)
  from sel g o f [of "groupBy (parts q)"] f [of "orderBy (parts q)"] show ?thesis
    by blast
qed

theorem select_holds_no_empty_string_witness:
  "[] \<notin> set (select (parts (sql (sql_tag [''SELECT a''] []) [''GROUP BY ,''] [])))
   \<and> groupBy (parts (sql (sql_tag [''SELECT a''] []) [''GROUP BY ,''] [])) = ['','']
   \<and> groupBy_block (parts (sql (sql_tag [''SELECT a''] []) [''GROUP BY ,''] [])) = []"
proof -
  have r: "reachable (sql (sql_tag [''SELECT a''] []) [''GROUP BY ,''] [])"
    unfolding sql_tag_def by (rule reachable.extended [OF reachable.constructed])
  have g: "groupBy (parts (sql (sql_tag [''SELECT a''] []) [''GROUP BY ,''] [])) = ['','']"
    by code_simp
  have f: "filter valid_entry (groupBy (parts (sql (sql_tag [''SELECT a''] []) [''GROUP BY ,''] []))) = []"
    unfolding g by (simp add: valid_entry_def)
  note t = select_holds_no_empty_string [OF r]
  from t have "[] \<notin> set (select (parts (sql (sql_tag [''SELECT a''] []) [''GROUP BY ,''] [])))"
    by blast
  moreover from t have "groupBy_block (parts (sql (sql_tag [''SELECT a''] []) [''GROUP BY ,''] [])) = []"
    unfolding f by simp
  ultimately show ?thesis using g by blast
qed

text \<open>
  C8 as it is worded fails: the extension \<open>GROUP BY\<close> stores an empty string in
  \<open>groupBy\<close>, the extension \<open>ORDER BY ,\<close> stores a bare comma in \<open>orderBy\<close>, and the
  statement \<open>SELECT ,\<close> stores a bare comma in \<open>select\<close>.
\<close>

theorem buckets_hold_empty_and_comma_counterexample:
  "reachable (sql (sql_tag [''SELECT * FROM t''] []) [''GROUP BY''] [])
   \<and> [] \<in> set (groupBy (parts (sql (sql_tag [''SELECT * FROM t''] []) [''GROUP BY''] [])))
   \<and> reachable (sql (sql_tag [''SELECT * FROM t''] []) [''ORDER BY ,''] [])
   \<and> '','' \<in> set (orderBy (parts (sql (sql_tag [''SELECT * FROM t''] []) [''ORDER BY ,''] [])))
   \<and> reachable (sql_tag [''SELECT ,''] [])
   \<and> '','' \<in> set (select (parts (sql_tag [''SELECT ,''] [])))"
proof -
  have r0: "reachable (sql_tag ss vs)" for ss vs
    unfolding sql_tag_def by (rule reachable.constructed)
  have r1: "reachable (sql (sql_tag ss vs) ss' vs')" for ss vs ss' vs'
    by (rule reachable.extended [OF r0])
  have g: "groupBy (parts (sql (sql_tag [''SELECT * FROM t''] []) [''GROUP BY''] [])) = [[]]"
    by code_simp
  have o: "orderBy (parts (sql (sql_tag [''SELECT * FROM t''] []) [''ORDER BY ,''] [])) = ['','']"
    by code_simp
  have s: "select (parts (sql_tag [''SELECT ,''] [])) = ['','']"
    by code_simp
  show ?thesis
    unfolding g o s using r0 r1 by simp
qed

section \<open>Extension leaves the receiver unchanged\<close>

lemmas heap_defs = fresh_from_def allocated_def array_refs_def this_parts_def read_query_def
  read_parts_def this_params_def same_below_def step_ok_def

lemma step_ok_refl: "fresh_from n h this \<Longrightarrow> step_ok n h this h (read_query h this)"
  by (simp add: step_ok_def same_below_def)

lemma step_ok_trans:
  "step_ok n h this h1 q1 \<Longrightarrow> step_ok n h1 this h2 q2 \<Longrightarrow> step_ok n h this h2 q2"
  by (auto simp: step_ok_def same_below_def)

lemma push_ok:
  assumes "fresh_from n h this"
  shows "step_ok n h this (push b x this h) (pure_push b x (read_query h this))"
  using assms by (cases b) (auto simp: heap_defs push_def Let_def)

lemma assign_select_ok:
  assumes "fresh_from n h this"
  shows "step_ok n h this (assign_select xs this h)
           ((read_query h this)\<lparr>parts := (parts (read_query h this))\<lparr>select := xs\<rparr>\<rparr>)"
  using assms by (auto simp: heap_defs assign_select_def new_array_def Let_def)

lemma assign_from_ok:
  assumes "fresh_from n h this"
  shows "step_ok n h this (assign_from v this h)
           ((read_query h this)\<lparr>parts := (parts (read_query h this))\<lparr>from_table := Some v\<rparr>\<rparr>)"
  using assms by (auto simp: heap_defs assign_from_def Let_def)

lemma assign_limit_ok:
  assumes "fresh_from n h this"
  shows "step_ok n h this (assign_limit v this h)
           ((read_query h this)\<lparr>parts := (parts (read_query h this))\<lparr>limit := Some v\<rparr>\<rparr>)"
  using assms by (auto simp: heap_defs assign_limit_def Let_def)

lemma assign_offset_ok:
  assumes "fresh_from n h this"
  shows "step_ok n h this (assign_offset v this h)
           ((read_query h this)\<lparr>parts := (parts (read_query h this))\<lparr>offset := Some v\<rparr>\<rparr>)"
  using assms by (auto simp: heap_defs assign_offset_def Let_def)

lemma assign_counter_ok:
  assumes "fresh_from n h this"
  shows "step_ok n h this (assign_counter c this h) ((read_query h this)\<lparr>paramCounter := c\<rparr>)"
  using assms by (auto simp: heap_defs assign_counter_def Let_def)

lemma store_param_ok:
  assumes "fresh_from n h this"
  shows "step_ok n h this (store_param c v this h)
           ((read_query h this)\<lparr>params := AList.update c v (params (read_query h this))\<rparr>)"
  using assms by (auto simp: heap_defs store_param_def Let_def)


lemmas push_select_ok = push_ok [of _ _ _ BSelect, simplified]
lemmas push_joins_ok = push_ok [of _ _ _ BJoins, simplified]
lemmas push_where_ok = push_ok [of _ _ _ BWhere, simplified]
lemmas push_groupBy_ok = push_ok [of _ _ _ BGroupBy, simplified]
lemmas push_orderBy_ok = push_ok [of _ _ _ BOrderBy, simplified]

lemmas mutation_ok = push_select_ok push_joins_ok push_where_ok push_groupBy_ok push_orderBy_ok
  assign_select_ok assign_from_ok assign_limit_ok assign_offset_ok step_ok_refl

lemma h_continuation_ok:
  assumes "fresh_from n h this"
  shows "step_ok n h this (h_continuation cs line this h) (continuation cs line (read_query h this))"
  using assms
  by (simp add: h_continuation_def continuation_def Let_def mutation_ok
      split: option.splits section_tag.splits)

lemma h_parseLine_ok:
  assumes "fresh_from n h this"
  shows "fst (h_parseLine this (cs, h) line) = fst (parseLine (cs, read_query h this) line)
       \<and> step_ok n h this (snd (h_parseLine this (cs, h) line))
            (snd (parseLine (cs, read_query h this) line))"
  using assms
  by (simp add: h_parseLine_def parseLine_def Let_def mutation_ok h_continuation_ok)

lemma step_ok_fresh: "step_ok n h this h' q' \<Longrightarrow> fresh_from n h' this"
  by (simp add: step_ok_def)

lemma step_ok_read: "step_ok n h this h' q' \<Longrightarrow> read_query h' this = q'"
  by (simp add: step_ok_def)

lemma foldl_h_parseLine_ok:
  assumes "fresh_from n h this"
  shows "fst (foldl (h_parseLine this) (cs, h) ls) = fst (foldl parseLine (cs, read_query h this) ls)
       \<and> step_ok n h this (snd (foldl (h_parseLine this) (cs, h) ls))
            (snd (foldl parseLine (cs, read_query h this) ls))"
  using assms
proof (induction ls arbitrary: cs h)
  case Nil
  then show ?case by (simp add: step_ok_refl)
next
  case (Cons l ls)
  obtain cs1 h1 where one: "h_parseLine this (cs, h) l = (cs1, h1)"
    by (cases "h_parseLine this (cs, h) l")
  obtain cs1' q1 where one': "parseLine (cs, read_query h this) l = (cs1', q1)"
    by (cases "parseLine (cs, read_query h this) l")
  from h_parseLine_ok [OF Cons.prems, of cs l] one one'
  have eq: "cs1' = cs1" and ok: "step_ok n h this h1 q1" by simp_all
  note ih = Cons.IH [OF step_ok_fresh [OF ok], of cs1]
  have rd: "read_query h1 this = q1" by (rule step_ok_read [OF ok])
  show ?case
    using ih step_ok_trans [OF ok] by (simp add: one one' eq rd)
qed

lemma h_parseInitialQuery_ok:
  assumes "fresh_from n h this"
  shows "step_ok n h this (h_parseInitialQuery query this h) (parseInitialQuery query (read_query h this))"
  using foldl_h_parseLine_ok [OF assms]
  by (simp add: h_parseInitialQuery_def parseInitialQuery_def)

lemma where_length_read:
  "length (arrays h (where_ref (this_parts h this))) = length (where_conds (parts (read_query h this)))"
  by (simp add: heap_defs)

lemma push_where_first_ok:
  assumes "fresh_from n h this" and "where_conds (parts (read_query h this)) = []"
  shows "step_ok n h this (push BWhere x this h)
           ((read_query h this)\<lparr>parts := (parts (read_query h this))\<lparr>where_conds := [x]\<rparr>\<rparr>)"
  using push_where_ok [OF assms(1), of x] assms(2) by simp

lemma h_parseQuery_ok:
  assumes "fresh_from n h this"
  shows "step_ok n h this (h_parseQuery query this h) (parseQuery query (read_query h this))"
  using assms
  by (simp add: h_parseQuery_def parseQuery_def Let_def mutation_ok h_parseInitialQuery_ok
      where_length_read push_where_first_ok)


lemma bump_store_ok:
  assumes "fresh_from n h this"
  shows "step_ok n h this
           (store_param (counter (query_objs (assign_counter (counter (query_objs h this) + 1) this h) this)) v this
              (assign_counter (counter (query_objs h this) + 1) this h))
           ((read_query h this)\<lparr>params := AList.update (paramCounter (read_query h this) + 1) v
                (params (read_query h this)), paramCounter := paramCounter (read_query h this) + 1\<rparr>)"
proof -
  let ?h1 = "assign_counter (counter (query_objs h this) + 1) this h"
  have c: "counter (query_objs h this) = paramCounter (read_query h this)"
    by (simp add: read_query_def)
  have one: "step_ok n h this ?h1 ((read_query h this)\<lparr>paramCounter := paramCounter (read_query h this) + 1\<rparr>)"
    using assign_counter_ok [OF assms] by (simp add: c)
  have c1: "counter (query_objs ?h1 this) = paramCounter (read_query h this) + 1"
    using step_ok_read [OF one] by (simp add: read_query_def)
  have two: "step_ok n ?h1 this (store_param (counter (query_objs ?h1 this)) v this ?h1)
      ((read_query ?h1 this)\<lparr>params := AList.update (counter (query_objs ?h1 this)) v (params (read_query ?h1 this))\<rparr>)"
    by (rule store_param_ok [OF step_ok_fresh [OF one]])
  have tgt: "(read_query ?h1 this)\<lparr>params := AList.update (counter (query_objs ?h1 this)) v (params (read_query ?h1 this))\<rparr>
      = (read_query h this)\<lparr>params := AList.update (paramCounter (read_query h this) + 1) v
                (params (read_query h this)), paramCounter := paramCounter (read_query h this) + 1\<rparr>"
    unfolding c1 step_ok_read [OF one] by simp
  show ?thesis
    using step_ok_trans [OF one two] unfolding tgt .
qed

lemma bump_store_counter:
  "counter (query_objs (store_param c v this (assign_counter c' this h)) this) = c'"
  by (simp add: store_param_def assign_counter_def Let_def)

lemma h_interpolate_step_ok:
  assumes "fresh_from n h this"
  shows "fst (h_interpolate_step this h result str gap) = fst (interpolate_step (read_query h this) result str gap)
       \<and> step_ok n h this (snd (h_interpolate_step this h result str gap))
            (snd (interpolate_step (read_query h this) result str gap))"
proof -
  have c: "counter (query_objs h this) = paramCounter (read_query h this)"
    by (simp add: read_query_def)
  show ?thesis
    using bump_store_ok [OF assms] step_ok_refl [OF assms]
    by (simp add: h_interpolate_step_def interpolate_step_def Let_def bump_store_counter
        split: option.splits) (simp add: c)
qed

lemma h_interpolate_from_ok:
  assumes "fresh_from n h this"
  shows "fst (h_interpolate_from this h result ss vs) = fst (interpolate_from (read_query h this) result ss vs)
       \<and> step_ok n h this (snd (h_interpolate_from this h result ss vs))
            (snd (interpolate_from (read_query h this) result ss vs))"
  using assms
proof (induction ss arbitrary: h result vs)
  case Nil
  then show ?case by (simp add: step_ok_refl)
next
  case (Cons s ss)
  let ?g = "case vs of [] \<Rightarrow> None | v # _ \<Rightarrow> Some v"
  obtain r1 h1 where one: "h_interpolate_step this h result s ?g = (r1, h1)"
    by (cases "h_interpolate_step this h result s ?g")
  obtain r1' q1 where one': "interpolate_step (read_query h this) result s ?g = (r1', q1)"
    by (cases "interpolate_step (read_query h this) result s ?g")
  from h_interpolate_step_ok [OF Cons.prems, of result s ?g] one one'
  have eq: "r1' = r1" and ok: "step_ok n h this h1 q1" by simp_all
  note ih = Cons.IH [OF step_ok_fresh [OF ok], of r1 "tl vs"]
  have rd: "read_query h1 this = q1" by (rule step_ok_read [OF ok])
  show ?case
    using ih step_ok_trans [OF ok] by (simp add: one one' eq rd)
qed

lemma h_interpolate_ok:
  assumes "fresh_from n h this"
  shows "fst (h_interpolate strings vals this h) = fst (interpolate strings vals (read_query h this))
       \<and> step_ok n h this (snd (h_interpolate strings vals this h))
            (snd (interpolate strings vals (read_query h this)))"
  using h_interpolate_from_ok [OF assms] by (simp add: h_interpolate_def interpolate_def)

lemma copy_query_ok:
  assumes "allocated h this"
  shows "fresh_from (next_free h) (snd (copy_query this h)) (fst (copy_query this h))
       \<and> same_below (next_free h) h (snd (copy_query this h))
       \<and> read_query (snd (copy_query this h)) (fst (copy_query this h))
           = \<lparr>parts = parts (read_query h this), params = params (read_query h this),
              paramCounter = paramCounter (read_query h this)\<rparr>"
  using assms
  by (auto simp: heap_defs copy_query_def h_new_SQLQuery_def structuredClone_def new_array_def
      new_parts_obj_def new_params_obj_def new_query_obj_def assign_counter_def Let_def)

lemma same_below_read:
  assumes "allocated h this" and "same_below (next_free h) h h'"
  shows "read_query h' this = read_query h this"
  using assms by (auto simp: heap_defs)

lemma same_below_trans: "same_below n h h1 \<Longrightarrow> same_below n h1 h2 \<Longrightarrow> same_below n h h2"
  by (simp add: same_below_def)

text \<open>
  C1. Let \<open>base\<close> be a query object allocated in the store. The method \<open>sql\<close>, for every
  template and every list of values, returns a query object other than \<open>base\<close>, and
  afterwards \<open>base\<close> reads exactly as before: every bucket, both scalars, the parameter
  mapping and \<open>paramCounter\<close> are equal, so its rendered text is the same. More strongly,
  every cell of the store that was allocated before the call is unchanged. The returned
  object reads as the state-passing \<open>sql\<close> of the state of \<open>base\<close>.
\<close>

theorem sql_leaves_receiver_unchanged:
  assumes "allocated h base"
  shows "fst (h_sql base strings vals h) \<noteq> base
       \<and> read_query (snd (h_sql base strings vals h)) base = read_query h base
       \<and> toString (read_query (snd (h_sql base strings vals h)) base) = toString (read_query h base)
       \<and> same_below (next_free h) h (snd (h_sql base strings vals h))
       \<and> read_query (snd (h_sql base strings vals h)) (fst (h_sql base strings vals h))
           = sql (read_query h base) strings vals"
proof -
  let ?n = "next_free h"
  obtain newQuery h6 where cp: "copy_query base h = (newQuery, h6)"
    by (cases "copy_query base h")
  obtain fragment h7 where ip: "h_interpolate strings vals newQuery h6 = (fragment, h7)"
    by (cases "h_interpolate strings vals newQuery h6")
  let ?copy = "\<lparr>parts = parts (read_query h base), params = params (read_query h base),
              paramCounter = paramCounter (read_query h base)\<rparr>"
  from copy_query_ok [OF assms] cp
  have f6: "fresh_from ?n h6 newQuery" and s6: "same_below ?n h h6" and r6: "read_query h6 newQuery = ?copy"
    by simp_all
  obtain fragment' q7 where ip': "interpolate strings vals ?copy = (fragment', q7)"
    by (cases "interpolate strings vals ?copy")
  from h_interpolate_ok [OF f6, of strings vals] ip ip' r6
  have fr: "fragment' = fragment" and ok7: "step_ok ?n h6 newQuery h7 q7"
    by simp_all
  have ok8: "step_ok ?n h7 newQuery (h_parseQuery fragment newQuery h7) (parseQuery fragment q7)"
    using h_parseQuery_ok [OF step_ok_fresh [OF ok7], of fragment] step_ok_read [OF ok7] by simp
  have res: "h_sql base strings vals h = (newQuery, h_parseQuery fragment newQuery h7)"
    by (simp add: h_sql_def cp ip)
  have ok: "step_ok ?n h6 newQuery (h_parseQuery fragment newQuery h7) (parseQuery fragment q7)"
    by (rule step_ok_trans [OF ok7 ok8])
  have below: "same_below ?n h (h_parseQuery fragment newQuery h7)"
    using same_below_trans [OF s6] ok by (simp add: step_ok_def)
  have new: "newQuery \<noteq> base"
    using f6 assms by (auto simp: fresh_from_def allocated_def)
  have unchanged: "read_query (h_parseQuery fragment newQuery h7) base = read_query h base"
    by (rule same_below_read [OF assms below])
  have refine: "read_query (h_parseQuery fragment newQuery h7) newQuery = sql (read_query h base) strings vals"
    using step_ok_read [OF ok] by (simp add: sql_def Let_def ip' fr)
  show ?thesis
    unfolding res fst_conv snd_conv using new unchanged below refine by simp
qed

theorem sql_leaves_receiver_unchanged_witness:
  "fst (h_sql 7 [''WHERE id = '', ''''] [JNumber 1]
          (h_parseInitialQuery ''SELECT * FROM users'' 7 (snd (h_new_SQLQuery empty_heap)))) \<noteq> 7
   \<and> toString (read_query (snd (h_sql 7 [''WHERE id = '', ''''] [JNumber 1]
          (h_parseInitialQuery ''SELECT * FROM users'' 7 (snd (h_new_SQLQuery empty_heap))))) 7)
       = ''SELECT\<newline>  * FROM users''
   \<and> toString (read_query (snd (h_sql 7 [''WHERE id = '', ''''] [JNumber 1]
          (h_parseInitialQuery ''SELECT * FROM users'' 7 (snd (h_new_SQLQuery empty_heap)))))
        (fst (h_sql 7 [''WHERE id = '', ''''] [JNumber 1]
          (h_parseInitialQuery ''SELECT * FROM users'' 7 (snd (h_new_SQLQuery empty_heap))))))
       = ''SELECT\<newline>  * FROM users\<newline>WHERE id = $1''"
proof -
  let ?h = "h_parseInitialQuery ''SELECT * FROM users'' 7 (snd (h_new_SQLQuery empty_heap))"
  have a: "allocated ?h 7"
    by code_simp
  have before: "toString (read_query ?h 7) = ''SELECT\<newline>  * FROM users''"
    by code_simp
  have extended: "toString (sql (read_query ?h 7) [''WHERE id = '', ''''] [JNumber 1])
      = ''SELECT\<newline>  * FROM users\<newline>WHERE id = $1''"
    by code_simp
  show ?thesis
    using sql_leaves_receiver_unchanged [OF a, of "[''WHERE id = '', '''']" "[JNumber 1]"]
    by (simp add: before extended)
qed

section \<open>Worked examples\<close>

text \<open>
  C9. From the empty state, parsing the one-line statement \<open>SELECT id, name FROM users\<close>
  and then classifying \<open>WHERE active = true\<close> and \<open>LIMIT 10\<close> renders exactly
  \<open>SELECT\n  id, name FROM users\nWHERE active = true\nLIMIT 10\<close>; the command-line driver
  prints the same text for \<open>--where "active = true" --limit 10\<close>.
\<close>

theorem cli_example_renders:
  "toString (parseQuery ''LIMIT 10'' (parseQuery ''WHERE active = true''
      (parseInitialQuery ''SELECT id, name FROM users'' empty_query)))
     = ''SELECT\<newline>  id, name FROM users\<newline>WHERE active = true\<newline>LIMIT 10''
   \<and> cli_output ''SELECT id, name FROM users''
        [''--file'', ''query.sql'', ''--where'', ''active = true'', ''--limit'', ''10'']
     = ''SELECT\<newline>  id, name FROM users\<newline>WHERE active = true\<newline>LIMIT 10''"
  by code_simp

text \<open>
  C2. Extending the state parsed from \<open>SELECT * FROM users\<close> with \<open>WHERE id = <1>\<close> and
  then with \<open>AND name = <"John">\<close> gives a text that holds \<open>$1\<close> and, after it, \<open>$2\<close>, and
  the exported parameter array is \<open>[1, "John"]\<close>: numbering continues across extensions.
\<close>

theorem cumulative_numbering:
  "toString (sql (sql (sql_tag [''SELECT * FROM users''] [])
                   [''WHERE id = '', ''''] [JNumber 1])
              [''AND name = '', ''''] [JString ''John''])
     = ''SELECT\<newline>  * FROM users\<newline>WHERE id = $1\<newline>  AND name = $2''
   \<and> (\<exists>a b c. toString (sql (sql (sql_tag [''SELECT * FROM users''] [])
                   [''WHERE id = '', ''''] [JNumber 1])
              [''AND name = '', ''''] [JString ''John'']) = a @ ''$1'' @ b @ ''$2'' @ c)
   \<and> parameters (sql (sql (sql_tag [''SELECT * FROM users''] [])
                   [''WHERE id = '', ''''] [JNumber 1])
              [''AND name = '', ''''] [JString ''John''])
     = [JNumber 1, JString ''John'']"
proof -
  let ?q = "sql (sql (sql_tag [''SELECT * FROM users''] [])
                   [''WHERE id = '', ''''] [JNumber 1])
              [''AND name = '', ''''] [JString ''John'']"
  have rendered: "toString ?q = ''SELECT\<newline>  * FROM users\<newline>WHERE id = $1\<newline>  AND name = $2''"
    by code_simp
  have "toString ?q = ''SELECT\<newline>  * FROM users\<newline>WHERE id = '' @ ''$1'' @ ''\<newline>  AND name = '' @ ''$2'' @ []"
    by (simp add: rendered)
  then have order: "\<exists>a b c. toString ?q = a @ ''$1'' @ b @ ''$2'' @ c"
    by blast
  have ps: "parameters ?q = [JNumber 1, JString ''John'']"
    by code_simp
  from rendered order ps show ?thesis by blast
qed

section \<open>The model on the inputs of the repository's tests\<close>

text \<open>
  The expected outputs asserted in \<open>tests/sql.test.ts\<close>, evaluated on the model.
\<close>

lemma test_basic_select:
  "toString (sql_tag [''SELECT * FROM users''] []) = ''SELECT\<newline>  * FROM users''"
  by code_simp

lemma test_fields_on_multiple_lines:
  "toString (sql_tag [''\<newline>  SELECT \<newline>    id, \<newline>    name, \<newline>    email \<newline>  FROM users''] [])
  = ''SELECT\<newline>  id,\<newline>  name,\<newline>  email\<newline>FROM users''"
  by code_simp

lemma test_multiple_joins:
  "toString (sql_tag [''\<newline>  SELECT * \<newline>  FROM users \<newline>  JOIN orders ON users.id = orders.user_id\<newline>  JOIN products ON orders.product_id = products.id''] [])
  = ''SELECT\<newline>  *\<newline>FROM users\<newline>JOIN orders ON users.id = orders.user_id\<newline>JOIN products ON orders.product_id = products.id''"
  by code_simp

lemma test_adding_joins:
  "toString (sql (sql (sql_tag [''SELECT * FROM users''] []) [''JOIN orders ON users.id = orders.user_id''] []) [''LEFT JOIN products ON orders.product_id = products.id''] [])
  = ''SELECT\<newline>  * FROM users\<newline>JOIN orders ON users.id = orders.user_id\<newline>LEFT JOIN products ON orders.product_id = products.id''"
  by code_simp

lemma test_where_with_or:
  "toString (sql (sql (sql_tag [''SELECT * FROM users''] []) [''WHERE id = 1''] []) [''OR name = 'John'' @ [CHR 0x27]] [])
  = ''SELECT\<newline>  * FROM users\<newline>WHERE id = 1\<newline>  OR name = 'John'' @ [CHR 0x27]"
  by code_simp

lemma test_limit_and_offset:
  "toString (sql (sql (sql_tag [''SELECT * FROM users''] []) [''LIMIT 10''] []) [''OFFSET 20''] [])
  = ''SELECT\<newline>  * FROM users\<newline>LIMIT 10\<newline>OFFSET 20''"
  by code_simp

lemma test_undefined_value:
  "toString (sql_tag [''SELECT * FROM users WHERE id = '', '' AND name = '', ''''] [JNumber 1, JUndefined])
  = ''SELECT\<newline>  * FROM users WHERE id = $1 AND name = NULL''"
  by code_simp

lemma test_undefined_value_parameters:
  "parameters (sql_tag [''SELECT * FROM users WHERE id = '', '' AND name = '', ''''] [JNumber 1, JUndefined]) = [JNumber 1]"
  by code_simp

lemma test_complex_query:
  "toString (sql (sql (sql (sql (sql (sql_tag [''\<newline>  SELECT \<newline>    id,\<newline>    name,\<newline>    email,\<newline>    created_at\<newline>  FROM users\<newline>  ''] [])
   [''JOIN orders ON users.id = orders.user_id''] []) [''WHERE name LIKE '', ''''] [JString ''%John%'']) [''GROUP BY users.id''] []) [''ORDER BY created_at DESC''] []) [''LIMIT '', ''''] [JNumber 10])
  = ''SELECT\<newline>  id,\<newline>  name,\<newline>  email,\<newline>  created_at\<newline>FROM users\<newline>JOIN orders ON users.id = orders.user_id\<newline>WHERE name LIKE $1\<newline>GROUP BY users.id\<newline>ORDER BY created_at DESC\<newline>LIMIT $2''"
  by code_simp

lemma test_empty_select:
  "toString (sql_tag [''SELECT FROM users''] []) = ''SELECT\<newline>  FROM users''"
  by code_simp

lemma test_leading_commas:
  "toString (sql_tag [''\<newline>  SELECT \<newline>    , id\<newline>    , name\<newline>    , email\<newline>  FROM users''] [])
  = ''SELECT\<newline>  id,\<newline>  name,\<newline>  email\<newline>FROM users''"
  by code_simp

lemma test_trailing_commas:
  "toString (sql_tag [''\<newline>  SELECT \<newline>    id,\<newline>    name,\<newline>    email,\<newline>  FROM users''] [])
  = ''SELECT\<newline>  id,\<newline>  name,\<newline>  email\<newline>FROM users''"
  by code_simp

lemma test_adding_group_by:
  "toString (sql (sql_tag [''SELECT count(*) FROM users''] []) [''GROUP BY department''] [])
  = ''SELECT\<newline>  count(*) FROM users\<newline>GROUP BY department''"
  by code_simp

end
